theory Spec2Isabelle
  imports Main
begin

section \<open>The axis state machine of Firmware/MotorControl/axis.cpp\<close>

text \<open>
  The development embeds the member functions of \<^verbatim>\<open>Axis\<close> as HOL functions over an
  explicit record of the object's fields. Everything the axis only calls (motor, encoder,
  sensorless estimator, controller, GPIO, RTOS signals) is a field of a record of
  functions over an abstract world \<open>'w\<close>; single precision numbers are an abstract type
  \<open>'f\<close> whose operations are fields of that record as well, so no rounding behaviour is
  assumed anywhere. The constructor, \<^verbatim>\<open>setup\<close>, \<^verbatim>\<open>start_thread\<close> and \<^verbatim>\<open>signal_current_meas\<close>
  only wire the collaborators and the thread and are not embedded.
\<close>

subsection \<open>Enumerations and configuration\<close>

text \<open>The states named in axis.cpp (\<^verbatim>\<open>AXIS_STATE_...\<close>).\<close>

datatype AxisState_t =
  AXIS_STATE_UNDEFINED
| AXIS_STATE_IDLE
| AXIS_STATE_MOTOR_CALIBRATION
| AXIS_STATE_ENCODER_CALIBRATION
| AXIS_STATE_SENSORLESS_CONTROL
| AXIS_STATE_CLOSED_LOOP_CONTROL
| AXIS_STATE_STARTUP_SEQUENCE
| AXIS_STATE_FULL_CALIBRATION_SEQUENCE

text \<open>The error codes assigned in axis.cpp (\<^verbatim>\<open>ERROR_...\<close>).\<close>

datatype Error_t =
  ERROR_NO_ERROR
| ERROR_INVALID_STATE
| ERROR_DC_BUS_UNDER_VOLTAGE
| ERROR_CURRENT_MEASUREMENT_TIMEOUT
| ERROR_MOTOR_FAILED
| ERROR_SENSORLESS_ESTIMATOR_FAILED
| ERROR_ENCODER_FAILED
| ERROR_CONTROLLER_FAILED
| ERROR_POS_CTRL_DURING_SENSORLESS

text \<open>The fields of \<^verbatim>\<open>config_\<close> that axis.cpp reads.\<close>

record 'f AxisConfig_t =
  startup_motor_calibration :: bool
  startup_encoder_calibration :: bool
  startup_closed_loop_control :: bool
  startup_sensorless_control :: bool
  enable_step_dir :: bool
  counts_per_step :: 'f
  ramp_up_time :: 'f
  ramp_up_distance :: 'f
  spin_up_current :: 'f
  spin_up_acceleration :: 'f
  spin_up_target_vel :: 'f
  dc_bus_brownout_trip_level :: 'f

subsection \<open>Faults of the model\<close>

text \<open>
  Two things the C++ does have no value in the program itself: a store past the end of
  \<^verbatim>\<open>task_chain_\<close> (undefined behaviour; the index is recorded) and a control loop that is
  still running when the fuel of the model is used up.
\<close>

datatype fault =
  ChainWriteOutOfBounds nat
| StillRunning

subsection \<open>Loading the task chain\<close>

text \<open>
  \<^verbatim>\<open>task_chain_[pos++] = v\<close> on the pair of the local \<^verbatim>\<open>pos\<close> and the array. The array
  is a list whose length is the capacity declared in the header; the store is checked
  against it, and a fault is passed on unchanged.
\<close>

definition chain_store ::
  "AxisState_t \<Rightarrow> fault + nat \<times> AxisState_t list \<Rightarrow> fault + nat \<times> AxisState_t list" where
  "chain_store v r =
     (case r of
        Inl f \<Rightarrow> Inl f
      | Inr (pos, chain) \<Rightarrow>
          if pos < length chain then Inr (Suc pos, chain[pos := v])
          else Inl (ChainWriteOutOfBounds pos))"

text \<open>
  Lines 213 to 232: the body of \<^verbatim>\<open>if (requested_state_ != AXIS_STATE_UNDEFINED)\<close>, from
  \<^verbatim>\<open>size_t pos = 0\<close> to the store of the sentinel. The result is the final \<^verbatim>\<open>pos\<close> and the
  array.
\<close>

definition expand_request ::
  "'f AxisConfig_t \<Rightarrow> AxisState_t \<Rightarrow> AxisState_t list \<Rightarrow> fault + nat \<times> AxisState_t list" where
  "expand_request cfg req chain =
     (let r0 = Inr (0, chain);
          r1 =
            (if req = AXIS_STATE_STARTUP_SEQUENCE then
               let a = (if startup_motor_calibration cfg
                        then chain_store AXIS_STATE_MOTOR_CALIBRATION r0 else r0);
                   b = (if startup_encoder_calibration cfg
                        then chain_store AXIS_STATE_ENCODER_CALIBRATION a else a);
                   c = (if startup_closed_loop_control cfg
                        then chain_store AXIS_STATE_CLOSED_LOOP_CONTROL b
                        else if startup_sensorless_control cfg
                        then chain_store AXIS_STATE_SENSORLESS_CONTROL b else b)
               in chain_store AXIS_STATE_IDLE c
             else if req = AXIS_STATE_FULL_CALIBRATION_SEQUENCE then
               chain_store AXIS_STATE_IDLE
                 (chain_store AXIS_STATE_ENCODER_CALIBRATION
                   (chain_store AXIS_STATE_MOTOR_CALIBRATION r0))
             else if req \<noteq> AXIS_STATE_UNDEFINED then
               chain_store AXIS_STATE_IDLE (chain_store req r0)
             else r0)
      in chain_store AXIS_STATE_UNDEFINED r1)"

text \<open>
  What the specification's planner table says a \<open>StartupSequence\<close> request expands to,
  sentinel included; written from the words of the specification, to be compared with
  \<open>expand_request\<close>.
\<close>

definition startup_sequence_spec :: "'f AxisConfig_t \<Rightarrow> AxisState_t list" where
  "startup_sequence_spec cfg =
     (if startup_motor_calibration cfg then [AXIS_STATE_MOTOR_CALIBRATION] else []) @
     (if startup_encoder_calibration cfg then [AXIS_STATE_ENCODER_CALIBRATION] else []) @
     (if startup_closed_loop_control cfg then [AXIS_STATE_CLOSED_LOOP_CONTROL]
      else if startup_sensorless_control cfg then [AXIS_STATE_SENSORLESS_CONTROL] else []) @
     [AXIS_STATE_IDLE, AXIS_STATE_UNDEFINED]"

subsection \<open>Collaborators and hardware\<close>

text \<open>
  What axis.cpp uses but does not define. \<open>state_value\<close> gives the numeric value of each
  enumerator of the state type (the validation compares states with \<^verbatim>\<open>>\<close>), and
  \<open>CTRL_MODE_POSITION_CONTROL\<close> the value of that enumerator of the controller. Each
  method of a collaborator takes the world and returns its result with the new world;
  \<open>encoder_update\<close> and \<open>sensorless_estimator_update\<close> take a flag that is \<open>False\<close> when
  the three output pointers are \<^verbatim>\<open>nullptr\<close>. \<open>request_written\<close> is the other threads'
  access to \<^verbatim>\<open>requested_state_\<close>: \<open>Some r\<close> when \<open>r\<close> has been written since the last look.
\<close>

record ('w, 'f) env =
  state_value :: "AxisState_t \<Rightarrow> int"
  CTRL_MODE_POSITION_CONTROL :: int
  current_meas_period :: 'f
  f_zero :: 'f
  f_one :: 'f
  f_minus_one :: 'f
  f_add :: "'f \<Rightarrow> 'f \<Rightarrow> 'f"
  f_mul :: "'f \<Rightarrow> 'f \<Rightarrow> 'f"
  f_div :: "'f \<Rightarrow> 'f \<Rightarrow> 'f"
  f_less :: "'f \<Rightarrow> 'f \<Rightarrow> bool"
  f_ge :: "'f \<Rightarrow> 'f \<Rightarrow> bool"
  wrap_pm_pi :: "'f \<Rightarrow> 'f"
  motor_is_calibrated :: "'w \<Rightarrow> bool"
  encoder_is_calibrated :: "'w \<Rightarrow> bool"
  controller_control_mode :: "'w \<Rightarrow> int"
  controller_pos_setpoint :: "'w \<Rightarrow> 'f"
  controller_set_pos_setpoint :: "'f \<Rightarrow> 'w \<Rightarrow> 'w"
  vbus_voltage :: "'w \<Rightarrow> 'f"
  motor_do_checks :: "'w \<Rightarrow> bool \<times> 'w"
  motor_arm :: "'w \<Rightarrow> bool \<times> 'w"
  motor_run_calibration :: "'w \<Rightarrow> bool \<times> 'w"
  motor_update :: "'f \<Rightarrow> 'f \<Rightarrow> 'w \<Rightarrow> bool \<times> 'w"
  encoder_run_calibration :: "'w \<Rightarrow> bool \<times> 'w"
  encoder_update :: "bool \<Rightarrow> 'w \<Rightarrow> (bool \<times> 'f \<times> 'f \<times> 'f) \<times> 'w"
  sensorless_estimator_update :: "bool \<Rightarrow> 'w \<Rightarrow> (bool \<times> 'f \<times> 'f \<times> 'f) \<times> 'w"
  controller_update :: "'f \<Rightarrow> 'f \<Rightarrow> 'w \<Rightarrow> (bool \<times> 'f) \<times> 'w"
  osSignalWait :: "'w \<Rightarrow> bool \<times> 'w"
  HAL_GPIO_ReadPin_dir :: "'w \<Rightarrow> bool"
  HAL_GPIO_Init_dir :: "'w \<Rightarrow> 'w"
  GPIO_subscribe_step :: "'w \<Rightarrow> 'w"
  GPIO_unsubscribe_step :: "'w \<Rightarrow> 'w"
  controller_alloc_cogging_map :: "'w \<Rightarrow> 'w"
  request_written :: "'w \<Rightarrow> AxisState_t option \<times> 'w"

text \<open>The calls that leave the axis, in the order they are made.\<close>

datatype call =
  MotorDoChecks
| MotorArm
| MotorRunCalibration
| MotorUpdate
| EncoderRunCalibration
| EncoderUpdate bool
| SensorlessEstimatorUpdate bool
| ControllerUpdate
| SignalWait
| GpioInitDir
| GpioSubscribe
| GpioUnsubscribe

subsection \<open>The axis object\<close>

text \<open>
  The member variables axis.cpp works on, the world of the collaborators, and the list
  of calls made so far. A member \<^verbatim>\<open>name_\<close> of the class is the field \<open>name_m\<close>.
  \<^verbatim>\<open>current_state_\<close> is a reference to \<^verbatim>\<open>task_chain_[0]\<close> (line 237).
\<close>

record ('w, 'f) Axis =
  config_m :: "'f AxisConfig_t"
  error_m :: Error_t
  enable_step_dir_m :: bool
  requested_state_m :: AxisState_t
  task_chain_m :: "AxisState_t list"
  world :: 'w
  calls :: "call list"

definition current_state_m :: "('w, 'f) Axis \<Rightarrow> AxisState_t" where
  "current_state_m s = task_chain_m s ! 0"

definition set_current_state :: "AxisState_t \<Rightarrow> ('w, 'f) Axis \<Rightarrow> ('w, 'f) Axis" where
  "set_current_state v s = s\<lparr>task_chain_m := (task_chain_m s)[0 := v]\<rparr>"

text \<open>A call of a collaborator's method: the world changes and the call is recorded.\<close>

definition ext_call ::
  "call \<Rightarrow> ('w \<Rightarrow> 'a \<times> 'w) \<Rightarrow> ('w, 'f) Axis \<Rightarrow> 'a \<times> ('w, 'f) Axis" where
  "ext_call c m s =
     (case m (world s) of (r, w) \<Rightarrow> (r, s\<lparr>world := w, calls := calls s @ [c]\<rparr>))"

subsection \<open>Member functions up to the checks\<close>

definition wait_for_current_meas ::
  "('w, 'f) env \<Rightarrow> ('w, 'f) Axis \<Rightarrow> bool \<times> ('w, 'f) Axis" where
  "wait_for_current_meas E s =
     (case ext_call SignalWait (osSignalWait E) s of
        (signalled, s1) \<Rightarrow>
          if \<not> signalled then (False, s1\<lparr>error_m := ERROR_CURRENT_MEASUREMENT_TIMEOUT\<rparr>)
          else (True, s1))"

definition step_cb :: "('w, 'f) env \<Rightarrow> ('w, 'f) Axis \<Rightarrow> ('w, 'f) Axis" where
  "step_cb E s =
     (if enable_step_dir_m s then
        let dir = (if HAL_GPIO_ReadPin_dir E (world s) then f_one E else f_minus_one E)
        in s\<lparr>world :=
               controller_set_pos_setpoint E
                 (f_add E (controller_pos_setpoint E (world s))
                          (f_mul E dir (counts_per_step (config_m s))))
                 (world s)\<rparr>
      else s)"

definition set_step_dir_enabled ::
  "('w, 'f) env \<Rightarrow> bool \<Rightarrow> ('w, 'f) Axis \<Rightarrow> ('w, 'f) Axis" where
  "set_step_dir_enabled E enable s =
     (if enable then
        s\<lparr>world := GPIO_subscribe_step E (HAL_GPIO_Init_dir E (world s)),
          calls := calls s @ [GpioInitDir, GpioSubscribe],
          enable_step_dir_m := True\<rparr>
      else
        s\<lparr>enable_step_dir_m := False,
          world := GPIO_unsubscribe_step E (world s),
          calls := calls s @ [GpioUnsubscribe]\<rparr>)"

definition check_PSU_brownout :: "('w, 'f) env \<Rightarrow> ('w, 'f) Axis \<Rightarrow> bool" where
  "check_PSU_brownout E s =
     f_ge E (vbus_voltage E (world s)) (dc_bus_brownout_trip_level (config_m s))"

definition do_checks :: "('w, 'f) env \<Rightarrow> ('w, 'f) Axis \<Rightarrow> bool \<times> ('w, 'f) Axis" where
  "do_checks E s =
     (case ext_call MotorDoChecks (motor_do_checks E) s of
        (ok, s1) \<Rightarrow>
          if \<not> ok then (False, s1\<lparr>error_m := ERROR_MOTOR_FAILED\<rparr>)
          else if \<not> check_PSU_brownout E s1
          then (False, s1\<lparr>error_m := ERROR_DC_BUS_UNDER_VOLTAGE\<rparr>)
          else (True, s1))"

subsection \<open>The control loop runner\<close>

text \<open>
  Modelled from the spec: \<^verbatim>\<open>requested_state_\<close> is written by other threads, which axis.cpp
  does not contain. The handlers "should exit if requested_state != AXIS_STATE_UNDEFINED"
  (line 246); the runner looks for a new request here.
\<close>

definition observe_request :: "('w, 'f) env \<Rightarrow> ('w, 'f) Axis \<Rightarrow> ('w, 'f) Axis" where
  "observe_request E s =
     (case request_written E (world s) of
        (None, w) \<Rightarrow> s\<lparr>world := w\<rparr>
      | (Some r, w) \<Rightarrow> s\<lparr>world := w, requested_state_m := r\<rparr>)"

text \<open>
  Modelled from the spec: \<^verbatim>\<open>run_control_loop\<close> is a template of the header, which is
  missing. The specification's runner invokes the closure "until the closure signals
  stop or a higher-priority state change is requested"; each round it "waits for the next
  current-measurement synchronization event with a bounded timeout, then invokes the
  closure once", and it stops on a missed deadline "except specifically inside the Idle
  variant". The closure may own locals (\<open>'l\<close>), which it gets and returns. The loop need
  not end, so it runs on fuel: \<open>None\<close> says that the fuel did not suffice.
\<close>

fun run_control_loop ::
  "nat \<Rightarrow> ('w, 'f) env \<Rightarrow> ('l \<Rightarrow> ('w, 'f) Axis \<Rightarrow> bool \<times> 'l \<times> ('w, 'f) Axis) \<Rightarrow>
   'l \<Rightarrow> ('w, 'f) Axis \<Rightarrow> ('l \<times> ('w, 'f) Axis) option" where
  "run_control_loop 0 E update_handler l s = None"
| "run_control_loop (Suc fuel) E update_handler l s =
     (let s0 = observe_request E s in
      if requested_state_m s0 \<noteq> AXIS_STATE_UNDEFINED then Some (l, s0)
      else
        case wait_for_current_meas E s0 of
          (in_time, s1) \<Rightarrow>
            if \<not> in_time \<and> current_state_m s1 \<noteq> AXIS_STATE_IDLE then Some (l, s1)
            else
              case update_handler l s1 of
                (go_on, l', s2) \<Rightarrow>
                  if \<not> go_on then Some (l', s2)
                  else run_control_loop fuel E update_handler l' s2)"

subsection \<open>The control loops\<close>

text \<open>The first closure of \<^verbatim>\<open>run_sensorless_spin_up\<close>; its local is \<^verbatim>\<open>x\<close>.\<close>

definition spin_up_ramp_handler ::
  "('w, 'f) env \<Rightarrow> 'f \<Rightarrow> ('w, 'f) Axis \<Rightarrow> bool \<times> 'f \<times> ('w, 'f) Axis" where
  "spin_up_ramp_handler E x s =
     (let phase = wrap_pm_pi E (f_mul E (ramp_up_distance (config_m s)) x);
          I_mag = f_mul E (spin_up_current (config_m s)) x;
          x' = f_add E x (f_div E (current_meas_period E) (ramp_up_time (config_m s)))
      in case ext_call MotorUpdate (motor_update E I_mag phase) s of
           (ok, s1) \<Rightarrow>
             if \<not> ok then (False, x', s1\<lparr>error_m := ERROR_MOTOR_FAILED\<rparr>)
             else (f_less E x' (f_one E), x', s1))"

text \<open>The second closure; its locals are \<^verbatim>\<open>vel\<close> and \<^verbatim>\<open>phase\<close>.\<close>

definition spin_up_accel_handler ::
  "('w, 'f) env \<Rightarrow> 'f \<times> 'f \<Rightarrow> ('w, 'f) Axis \<Rightarrow> bool \<times> ('f \<times> 'f) \<times> ('w, 'f) Axis" where
  "spin_up_accel_handler E l s =
     (case l of
        (vel, phase) \<Rightarrow>
          let vel' = f_add E vel
                       (f_mul E (spin_up_acceleration (config_m s)) (current_meas_period E));
              phase' = wrap_pm_pi E (f_add E phase (f_mul E vel' (current_meas_period E)));
              I_mag = spin_up_current (config_m s)
          in case ext_call MotorUpdate (motor_update E I_mag phase') s of
               (ok, s1) \<Rightarrow>
                 if \<not> ok then (False, (vel', phase'), s1\<lparr>error_m := ERROR_MOTOR_FAILED\<rparr>)
                 else (f_less E vel' (spin_up_target_vel (config_m s)), (vel', phase'), s1))"

definition run_sensorless_spin_up ::
  "nat \<Rightarrow> ('w, 'f) env \<Rightarrow> ('w, 'f) Axis \<Rightarrow> (bool \<times> ('w, 'f) Axis) option" where
  "run_sensorless_spin_up fuel E s =
     (case run_control_loop fuel E (spin_up_ramp_handler E) (f_zero E) s of
        None \<Rightarrow> None
      | Some (x, s1) \<Rightarrow>
          if error_m s1 \<noteq> ERROR_NO_ERROR then Some (False, s1)
          else
            let vel = f_div E (ramp_up_distance (config_m s1)) (ramp_up_time (config_m s1));
                phase = wrap_pm_pi E (ramp_up_distance (config_m s1))
            in (case run_control_loop fuel E (spin_up_accel_handler E) (vel, phase) s1 of
                  None \<Rightarrow> None
                | Some (l, s2) \<Rightarrow> Some (error_m s2 = ERROR_NO_ERROR, s2)))"

text \<open>The closure of \<^verbatim>\<open>run_sensorless_control_loop\<close> (lines 143 to 158).\<close>

definition sensorless_control_handler ::
  "('w, 'f) env \<Rightarrow> unit \<Rightarrow> ('w, 'f) Axis \<Rightarrow> bool \<times> unit \<times> ('w, 'f) Axis" where
  "sensorless_control_handler E l s =
     (if CTRL_MODE_POSITION_CONTROL E \<le> controller_control_mode E (world s)
      then (False, (), s\<lparr>error_m := ERROR_POS_CTRL_DURING_SENSORLESS\<rparr>)
      else
        case ext_call (EncoderUpdate False) (encoder_update E False) s of
          (monitored, s1) \<Rightarrow>
        case ext_call (SensorlessEstimatorUpdate True) (sensorless_estimator_update E True) s1 of
          ((ok2, pos_estimate, vel_estimate, phase), s2) \<Rightarrow>
            if \<not> ok2 then (False, (), s2\<lparr>error_m := ERROR_SENSORLESS_ESTIMATOR_FAILED\<rparr>)
            else
              case ext_call ControllerUpdate (controller_update E pos_estimate vel_estimate) s2 of
                ((ok3, current_setpoint), s3) \<Rightarrow>
                  if \<not> ok3 then (False, (), s3\<lparr>error_m := ERROR_CONTROLLER_FAILED\<rparr>)
                  else
                    case ext_call MotorUpdate (motor_update E current_setpoint phase) s3 of
                      (ok4, s4) \<Rightarrow>
                        if \<not> ok4 then (False, (), s4\<lparr>error_m := ERROR_MOTOR_FAILED\<rparr>)
                        else (True, (), s4))"

definition run_sensorless_control_loop ::
  "nat \<Rightarrow> ('w, 'f) env \<Rightarrow> ('w, 'f) Axis \<Rightarrow> (bool \<times> ('w, 'f) Axis) option" where
  "run_sensorless_control_loop fuel E s =
     (let s1 = set_step_dir_enabled E (enable_step_dir (config_m s)) s
      in case run_control_loop fuel E (sensorless_control_handler E) () s1 of
           None \<Rightarrow> None
         | Some (l, s2) \<Rightarrow>
             let s3 = set_step_dir_enabled E False s2
             in Some (error_m s3 = ERROR_NO_ERROR, s3))"

text \<open>The closure of \<^verbatim>\<open>run_closed_loop_control_loop\<close> (lines 165 to 177).\<close>

definition closed_loop_control_handler ::
  "('w, 'f) env \<Rightarrow> unit \<Rightarrow> ('w, 'f) Axis \<Rightarrow> bool \<times> unit \<times> ('w, 'f) Axis" where
  "closed_loop_control_handler E l s =
     (case ext_call (SensorlessEstimatorUpdate False) (sensorless_estimator_update E False) s of
        (monitored, s1) \<Rightarrow>
      case ext_call (EncoderUpdate True) (encoder_update E True) s1 of
        ((ok2, pos_estimate, vel_estimate, phase), s2) \<Rightarrow>
          if \<not> ok2 then (False, (), s2\<lparr>error_m := ERROR_ENCODER_FAILED\<rparr>)
          else
            case ext_call ControllerUpdate (controller_update E pos_estimate vel_estimate) s2 of
              ((ok3, current_setpoint), s3) \<Rightarrow>
                if \<not> ok3 then (False, (), s3\<lparr>error_m := ERROR_CONTROLLER_FAILED\<rparr>)
                else
                  case ext_call MotorUpdate (motor_update E current_setpoint phase) s3 of
                    (ok4, s4) \<Rightarrow>
                      if \<not> ok4 then (False, (), s4\<lparr>error_m := ERROR_MOTOR_FAILED\<rparr>)
                      else (True, (), s4))"

definition run_closed_loop_control_loop ::
  "nat \<Rightarrow> ('w, 'f) env \<Rightarrow> ('w, 'f) Axis \<Rightarrow> (bool \<times> ('w, 'f) Axis) option" where
  "run_closed_loop_control_loop fuel E s =
     (let s1 = set_step_dir_enabled E (enable_step_dir (config_m s)) s
      in case run_control_loop fuel E (closed_loop_control_handler E) () s1 of
           None \<Rightarrow> None
         | Some (l, s2) \<Rightarrow>
             let s3 = set_step_dir_enabled E False s2
             in Some (error_m s3 = ERROR_NO_ERROR, s3))"

text \<open>The closure of \<^verbatim>\<open>run_idle_loop\<close> (lines 185 to 189).\<close>

definition idle_handler ::
  "('w, 'f) env \<Rightarrow> unit \<Rightarrow> ('w, 'f) Axis \<Rightarrow> bool \<times> unit \<times> ('w, 'f) Axis" where
  "idle_handler E l s =
     (case ext_call (SensorlessEstimatorUpdate False) (sensorless_estimator_update E False) s of
        (monitored1, s1) \<Rightarrow>
      case ext_call (EncoderUpdate False) (encoder_update E False) s1 of
        (monitored2, s2) \<Rightarrow> (True, (), s2))"

definition run_idle_loop ::
  "nat \<Rightarrow> ('w, 'f) env \<Rightarrow> ('w, 'f) Axis \<Rightarrow> (bool \<times> ('w, 'f) Axis) option" where
  "run_idle_loop fuel E s =
     (case run_control_loop fuel E (idle_handler E) () s of
        None \<Rightarrow> None
      | Some (l, s1) \<Rightarrow> Some (error_m s1 = ERROR_NO_ERROR, s1))"

subsection \<open>The state machine\<close>

text \<open>Lines 212 to 235: a pending request is expanded into the chain and cleared.\<close>

definition load_task_chain :: "('w, 'f) Axis \<Rightarrow> fault + ('w, 'f) Axis" where
  "load_task_chain s =
     (if requested_state_m s \<noteq> AXIS_STATE_UNDEFINED then
        case expand_request (config_m s) (requested_state_m s) (task_chain_m s) of
          Inl f \<Rightarrow> Inl f
        | Inr (pos, chain) \<Rightarrow>
            Inr (s\<lparr>task_chain_m := chain, requested_state_m := AXIS_STATE_UNDEFINED\<rparr>)
      else Inr s)"

text \<open>Lines 240 to 243: the two comparisons on the values of the enumerators.\<close>

definition validate_state :: "('w, 'f) env \<Rightarrow> ('w, 'f) Axis \<Rightarrow> ('w, 'f) Axis" where
  "validate_state E s =
     (let s1 = (if state_value E AXIS_STATE_MOTOR_CALIBRATION < state_value E (current_state_m s)
                   \<and> \<not> motor_is_calibrated E (world s)
                then set_current_state AXIS_STATE_UNDEFINED s else s)
      in if state_value E AXIS_STATE_ENCODER_CALIBRATION < state_value E (current_state_m s1)
            \<and> \<not> encoder_is_calibrated E (world s1)
         then set_current_state AXIS_STATE_UNDEFINED s1 else s1)"

text \<open>Lines 248 to 276: the switch on \<^verbatim>\<open>current_state_\<close>, giving \<^verbatim>\<open>status\<close>.\<close>

definition run_current_state ::
  "nat \<Rightarrow> ('w, 'f) env \<Rightarrow> ('w, 'f) Axis \<Rightarrow> (bool \<times> ('w, 'f) Axis) option" where
  "run_current_state fuel E s =
     (case current_state_m s of
        AXIS_STATE_MOTOR_CALIBRATION \<Rightarrow>
          Some (ext_call MotorRunCalibration (motor_run_calibration E) s)
      | AXIS_STATE_ENCODER_CALIBRATION \<Rightarrow>
          Some (ext_call EncoderRunCalibration (encoder_run_calibration E) s)
      | AXIS_STATE_SENSORLESS_CONTROL \<Rightarrow>
          (case run_sensorless_spin_up fuel E s of
             None \<Rightarrow> None
           | Some (status, s1) \<Rightarrow>
               if status then run_sensorless_control_loop fuel E s1 else Some (status, s1))
      | AXIS_STATE_CLOSED_LOOP_CONTROL \<Rightarrow> run_closed_loop_control_loop fuel E s
      | AXIS_STATE_IDLE \<Rightarrow>
          (case run_idle_loop fuel E s of
             None \<Rightarrow> None
           | Some (idle_status, s1) \<Rightarrow> Some (ext_call MotorArm (motor_arm E) s1))
      | _ \<Rightarrow> Some (False, s\<lparr>error_m := ERROR_INVALID_STATE\<rparr>))"

text \<open>
  The \<^verbatim>\<open>memcpy\<close> of line 282 moves the elements 1 to n - 1 of the array one place down;
  the last element keeps its value.
\<close>

definition shift_chain :: "AxisState_t list \<Rightarrow> AxisState_t list" where
  "shift_chain chain = (case chain of [] \<Rightarrow> [] | x # xs \<Rightarrow> xs @ [last (x # xs)])"

text \<open>Lines 279 to 282.\<close>

definition advance_task_chain :: "bool \<Rightarrow> ('w, 'f) Axis \<Rightarrow> ('w, 'f) Axis" where
  "advance_task_chain status s =
     (if \<not> status then set_current_state AXIS_STATE_IDLE s
      else s\<lparr>task_chain_m := shift_chain (task_chain_m s)\<rparr>)"

text \<open>
  The state one pass of the \<^verbatim>\<open>for (;;)\<close> loop switches on: the head of the chain after
  loading and validation.
\<close>

definition dispatched_state :: "('w, 'f) env \<Rightarrow> ('w, 'f) Axis \<Rightarrow> fault + AxisState_t" where
  "dispatched_state E s =
     (case load_task_chain s of
        Inl f \<Rightarrow> Inl f
      | Inr s1 \<Rightarrow> Inr (current_state_m (validate_state E s1)))"

text \<open>One pass of the \<^verbatim>\<open>for (;;)\<close> loop, giving \<^verbatim>\<open>status\<close> and the axis after line 282.\<close>

definition state_machine_iteration ::
  "nat \<Rightarrow> ('w, 'f) env \<Rightarrow> ('w, 'f) Axis \<Rightarrow> fault + bool \<times> ('w, 'f) Axis" where
  "state_machine_iteration fuel E s =
     (case load_task_chain s of
        Inl f \<Rightarrow> Inl f
      | Inr s1 \<Rightarrow>
          (case run_current_state fuel E (validate_state E s1) of
             None \<Rightarrow> Inl StillRunning
           | Some (status, s3) \<Rightarrow> Inr (status, advance_task_chain status s3)))"

text \<open>The first \<open>k\<close> passes of the loop.\<close>

fun state_machine_iterations ::
  "nat \<Rightarrow> nat \<Rightarrow> ('w, 'f) env \<Rightarrow> ('w, 'f) Axis \<Rightarrow> fault + ('w, 'f) Axis" where
  "state_machine_iterations 0 fuel E s = Inr s"
| "state_machine_iterations (Suc k) fuel E s =
     (case state_machine_iteration fuel E s of
        Inl f \<Rightarrow> Inl f
      | Inr (status, s') \<Rightarrow> state_machine_iterations k fuel E s')"

text \<open>
  \<^verbatim>\<open>run_state_machine_loop\<close> never returns; this is the axis after \<open>k\<close> passes, the
  anti-cogging map allocated and the motor armed before the first.
\<close>

definition run_state_machine_loop ::
  "nat \<Rightarrow> nat \<Rightarrow> ('w, 'f) env \<Rightarrow> ('w, 'f) Axis \<Rightarrow> fault + ('w, 'f) Axis" where
  "run_state_machine_loop k fuel E s =
     (let s0 = s\<lparr>world := controller_alloc_cogging_map E (world s)\<rparr>;
          s1 = snd (ext_call MotorArm (motor_arm E) s0)
      in state_machine_iterations k fuel E s1)"

subsection \<open>Monitoring-only updates\<close>

text \<open>
  The environment \<open>E\<close> with the boolean that a monitoring-only update returns (the call
  with \<^verbatim>\<open>nullptr\<close> outputs) replaced by \<open>r\<close> of the world it is called in; everything else
  the call does stays as it is.
\<close>

definition with_monitoring_result ::
  "('w \<Rightarrow> bool) \<Rightarrow> ('w, 'f) env \<Rightarrow> ('w, 'f) env" where
  "with_monitoring_result r E =
     E\<lparr>encoder_update :=
         (\<lambda>outputs w.
            if outputs then encoder_update E outputs w
            else (case encoder_update E outputs w of ((ok, out), w') \<Rightarrow> ((r w, out), w'))),
       sensorless_estimator_update :=
         (\<lambda>outputs w.
            if outputs then sensorless_estimator_update E outputs w
            else (case sensorless_estimator_update E outputs w of
                    ((ok, out), w') \<Rightarrow> ((r w, out), w')))\<rparr>"

subsection \<open>A simulated environment\<close>

text \<open>
  Modelled from the spec: the values of the enumerators of the state type, which the
  header declares. The specification lists the states as "totally ordered by calibration
  dependency": Undefined, Idle, MotorCalibration, EncoderCalibration, SensorlessControl,
  ClosedLoopControl, "plus" the two compound requests. Only the simulated environment
  uses these values; the theorems hold for every \<open>state_value\<close> or name the comparisons
  they need.
\<close>

fun spec_state_value :: "AxisState_t \<Rightarrow> int" where
  "spec_state_value AXIS_STATE_UNDEFINED = 0"
| "spec_state_value AXIS_STATE_IDLE = 1"
| "spec_state_value AXIS_STATE_MOTOR_CALIBRATION = 2"
| "spec_state_value AXIS_STATE_ENCODER_CALIBRATION = 3"
| "spec_state_value AXIS_STATE_SENSORLESS_CONTROL = 4"
| "spec_state_value AXIS_STATE_CLOSED_LOOP_CONTROL = 5"
| "spec_state_value AXIS_STATE_STARTUP_SEQUENCE = 6"
| "spec_state_value AXIS_STATE_FULL_CALIBRATION_SEQUENCE = 7"

text \<open>
  A world in which every collaborator answers as a field says, and the requests of the
  other threads are a list consumed one element per look.
\<close>

record sim_world =
  w_motor_calibrated :: bool
  w_encoder_calibrated :: bool
  w_control_mode :: int
  w_pos_setpoint :: int
  w_vbus :: int
  w_dir_pin :: bool
  w_requests :: "AxisState_t option list"
  w_signal_ok :: bool
  w_motor_checks_ok :: bool
  w_motor_arm_ok :: bool
  w_motor_calibration_ok :: bool
  w_motor_update_ok :: bool
  w_encoder_calibration_ok :: bool
  w_encoder_update_ok :: bool
  w_estimator_update_ok :: bool
  w_controller_update_ok :: bool

definition sim_env :: "(sim_world, int) env" where
  "sim_env =
     \<lparr>state_value = spec_state_value,
      CTRL_MODE_POSITION_CONTROL = 3,
      current_meas_period = 1,
      f_zero = 0,
      f_one = 1,
      f_minus_one = - 1,
      f_add = (\<lambda>a b. a + b),
      f_mul = (\<lambda>a b. a * b),
      f_div = (\<lambda>a b. a div b),
      f_less = (\<lambda>a b. a < b),
      f_ge = (\<lambda>a b. b \<le> a),
      wrap_pm_pi = (\<lambda>a. a),
      motor_is_calibrated = w_motor_calibrated,
      encoder_is_calibrated = w_encoder_calibrated,
      controller_control_mode = w_control_mode,
      controller_pos_setpoint = w_pos_setpoint,
      controller_set_pos_setpoint = (\<lambda>p w. w\<lparr>w_pos_setpoint := p\<rparr>),
      vbus_voltage = w_vbus,
      motor_do_checks = (\<lambda>w. (w_motor_checks_ok w, w)),
      motor_arm = (\<lambda>w. (w_motor_arm_ok w, w)),
      motor_run_calibration = (\<lambda>w. (w_motor_calibration_ok w, w)),
      motor_update = (\<lambda>I_mag phase w. (w_motor_update_ok w, w)),
      encoder_run_calibration = (\<lambda>w. (w_encoder_calibration_ok w, w)),
      encoder_update = (\<lambda>outputs w. ((w_encoder_update_ok w, 0, 0, 0), w)),
      sensorless_estimator_update = (\<lambda>outputs w. ((w_estimator_update_ok w, 0, 0, 0), w)),
      controller_update = (\<lambda>pos vel w. ((w_controller_update_ok w, 0), w)),
      osSignalWait = (\<lambda>w. (w_signal_ok w, w)),
      HAL_GPIO_ReadPin_dir = w_dir_pin,
      HAL_GPIO_Init_dir = (\<lambda>w. w),
      GPIO_subscribe_step = (\<lambda>w. w),
      GPIO_unsubscribe_step = (\<lambda>w. w),
      controller_alloc_cogging_map = (\<lambda>w. w),
      request_written =
        (\<lambda>w. case w_requests w of
               [] \<Rightarrow> (None, w)
             | r # rs \<Rightarrow> (r, w\<lparr>w_requests := rs\<rparr>))\<rparr>"

text \<open>A world in which everything is calibrated and succeeds, and no request comes.\<close>

definition sim_world_ok :: sim_world where
  "sim_world_ok =
     \<lparr>w_motor_calibrated = True,
      w_encoder_calibrated = True,
      w_control_mode = 2,
      w_pos_setpoint = 0,
      w_vbus = 24,
      w_dir_pin = True,
      w_requests = [],
      w_signal_ok = True,
      w_motor_checks_ok = True,
      w_motor_arm_ok = True,
      w_motor_calibration_ok = True,
      w_motor_update_ok = True,
      w_encoder_calibration_ok = True,
      w_encoder_update_ok = True,
      w_estimator_update_ok = True,
      w_controller_update_ok = True\<rparr>"

definition sim_config :: "int AxisConfig_t" where
  "sim_config =
     \<lparr>startup_motor_calibration = True,
      startup_encoder_calibration = True,
      startup_closed_loop_control = True,
      startup_sensorless_control = False,
      enable_step_dir = False,
      counts_per_step = 2,
      ramp_up_time = 1,
      ramp_up_distance = 4,
      spin_up_current = 10,
      spin_up_acceleration = 1,
      spin_up_target_vel = 6,
      dc_bus_brownout_trip_level = 8\<rparr>"

text \<open>
  An axis with the given request, chain and world, no error, step/dir off and no call
  made yet.
\<close>

definition sim_axis ::
  "AxisState_t \<Rightarrow> AxisState_t list \<Rightarrow> sim_world \<Rightarrow> (sim_world, int) Axis" where
  "sim_axis req chain w =
     \<lparr>config_m = sim_config,
      error_m = ERROR_NO_ERROR,
      enable_step_dir_m = False,
      requested_state_m = req,
      task_chain_m = chain,
      world = w,
      calls = []\<rparr>"

subsection \<open>Relations between an axis and a later one\<close>

text \<open>
  What the runner and every closure leave alone: the configuration, the chain and the
  step/dir flag stay, an error that is set stays set, and calls are only added.
\<close>

definition frame :: "('w, 'f) Axis \<Rightarrow> ('w, 'f) Axis \<Rightarrow> bool" where
  "frame s s' \<longleftrightarrow>
     config_m s' = config_m s \<and> task_chain_m s' = task_chain_m s \<and>
     enable_step_dir_m s' = enable_step_dir_m s \<and>
     (error_m s \<noteq> ERROR_NO_ERROR \<longrightarrow> error_m s' \<noteq> ERROR_NO_ERROR) \<and>
     (\<exists>tr. calls s' = calls s @ tr)"

text \<open>What a whole loop keeps: configuration, chain, and an error once set.\<close>

definition keeps :: "('w, 'f) Axis \<Rightarrow> ('w, 'f) Axis \<Rightarrow> bool" where
  "keeps s s' \<longleftrightarrow>
     config_m s' = config_m s \<and> task_chain_m s' = task_chain_m s \<and>
     (error_m s \<noteq> ERROR_NO_ERROR \<longrightarrow> error_m s' \<noteq> ERROR_NO_ERROR)"

subsection \<open>Simulated runs\<close>












definition sim_c3_start :: "(sim_world, int) Axis" where
  "sim_c3_start =
     sim_axis AXIS_STATE_STARTUP_SEQUENCE
       [AXIS_STATE_UNDEFINED, AXIS_STATE_UNDEFINED, AXIS_STATE_UNDEFINED,
        AXIS_STATE_UNDEFINED, AXIS_STATE_UNDEFINED] sim_world_ok"

definition sim_c3_loaded :: "(sim_world, int) Axis" where
  "sim_c3_loaded =
     sim_axis AXIS_STATE_UNDEFINED
       [AXIS_STATE_MOTOR_CALIBRATION, AXIS_STATE_ENCODER_CALIBRATION,
        AXIS_STATE_CLOSED_LOOP_CONTROL, AXIS_STATE_IDLE, AXIS_STATE_UNDEFINED] sim_world_ok"

text \<open>Closed loop control is requested while the encoder is not calibrated.\<close>

definition sim_c4_start :: "(sim_world, int) Axis" where
  "sim_c4_start =
     sim_axis AXIS_STATE_CLOSED_LOOP_CONTROL
       [AXIS_STATE_UNDEFINED, AXIS_STATE_UNDEFINED, AXIS_STATE_UNDEFINED,
        AXIS_STATE_UNDEFINED, AXIS_STATE_UNDEFINED]
       (sim_world_ok\<lparr>w_encoder_calibrated := False\<rparr>)"

definition sim_c4_loaded :: "(sim_world, int) Axis" where
  "sim_c4_loaded =
     sim_axis AXIS_STATE_UNDEFINED
       [AXIS_STATE_CLOSED_LOOP_CONTROL, AXIS_STATE_IDLE, AXIS_STATE_UNDEFINED,
        AXIS_STATE_UNDEFINED, AXIS_STATE_UNDEFINED]
       (sim_world_ok\<lparr>w_encoder_calibrated := False\<rparr>)"

text \<open>
  An axis whose error is set from before, in a world where every call succeeds and a
  request comes at the second look.
\<close>

definition sim_c5_start :: "(sim_world, int) Axis" where
  "sim_c5_start =
     (sim_axis AXIS_STATE_UNDEFINED
        [AXIS_STATE_CLOSED_LOOP_CONTROL, AXIS_STATE_IDLE, AXIS_STATE_UNDEFINED,
         AXIS_STATE_UNDEFINED, AXIS_STATE_UNDEFINED]
        (sim_world_ok\<lparr>w_requests := [None, Some AXIS_STATE_IDLE]\<rparr>))
     \<lparr>error_m := ERROR_ENCODER_FAILED\<rparr>"

text \<open>The controller is in position mode when the sensorless loop starts a round.\<close>

definition sim_c6_start :: "(sim_world, int) Axis" where
  "sim_c6_start =
     sim_axis AXIS_STATE_UNDEFINED
       [AXIS_STATE_SENSORLESS_CONTROL, AXIS_STATE_IDLE, AXIS_STATE_UNDEFINED,
        AXIS_STATE_UNDEFINED, AXIS_STATE_UNDEFINED]
       (sim_world_ok\<lparr>w_control_mode := 3\<rparr>)"

definition sim_c6_waited :: "(sim_world, int) Axis" where
  "sim_c6_waited = sim_c6_start\<lparr>calls := [SignalWait]\<rparr>"

text \<open>
  The closed loop runs one round and ends on a request, once with \<^verbatim>\<open>enable_step_dir\<close>
  off in the configuration and once with it on.
\<close>

definition sim_c8_start :: "(sim_world, int) Axis" where
  "sim_c8_start =
     sim_axis AXIS_STATE_UNDEFINED
       [AXIS_STATE_CLOSED_LOOP_CONTROL, AXIS_STATE_IDLE, AXIS_STATE_UNDEFINED,
        AXIS_STATE_UNDEFINED, AXIS_STATE_UNDEFINED]
       (sim_world_ok\<lparr>w_requests := [None, Some AXIS_STATE_IDLE]\<rparr>)"

definition sim_c8_done :: "(sim_world, int) Axis" where
  "sim_c8_done =
     (sim_axis AXIS_STATE_IDLE
        [AXIS_STATE_CLOSED_LOOP_CONTROL, AXIS_STATE_IDLE, AXIS_STATE_UNDEFINED,
         AXIS_STATE_UNDEFINED, AXIS_STATE_UNDEFINED] sim_world_ok)
     \<lparr>calls := [GpioUnsubscribe, SignalWait, SensorlessEstimatorUpdate False,
                EncoderUpdate True, ControllerUpdate, MotorUpdate, GpioUnsubscribe]\<rparr>"

definition sim_c8_enabled :: "(sim_world, int) Axis" where
  "sim_c8_enabled = sim_c8_start\<lparr>config_m := sim_config\<lparr>enable_step_dir := True\<rparr>\<rparr>"

section \<open>Properties\<close>

subsection \<open>The runner and the closures\<close>

lemma run_control_loop_preserves:
  assumes "run_control_loop n E h l s = Some (l', s')"
    and "P s"
    and "\<And>s. P s \<Longrightarrow> P (observe_request E s)"
    and "\<And>s. P s \<Longrightarrow> P (snd (wait_for_current_meas E s))"
    and "\<And>l s. P s \<Longrightarrow> P (snd (snd (h l s)))"
  shows "P s'"
  using assms(1,2)
proof (induction n arbitrary: l s)
  case 0
  then show ?case by simp
next
  case (Suc n)
  let ?s0 = "observe_request E s"
  have p0: "P ?s0" using Suc.prems(2) assms(3) by blast
  show ?case
  proof (cases "requested_state_m ?s0 \<noteq> AXIS_STATE_UNDEFINED")
    case True
    with Suc.prems(1) p0 show ?thesis by (simp add: Let_def)
  next
    case False
    obtain t s1 where w: "wait_for_current_meas E ?s0 = (t, s1)" by fastforce
    have p1: "P s1" using assms(4)[OF p0] w by simp
    show ?thesis
    proof (cases "\<not> t \<and> current_state_m s1 \<noteq> AXIS_STATE_IDLE")
      case True
      with Suc.prems(1) False w p1 show ?thesis by (simp add: Let_def)
    next
      case nostop: False
      obtain g l2 s2 where hh: "h l s1 = (g, l2, s2)" by (metis prod_cases3)
      have p2: "P s2" using assms(5)[OF p1, of l] hh by simp
      show ?thesis
      proof (cases g)
        case True
        with Suc.prems(1) False w nostop hh have "run_control_loop n E h l2 s2 = Some (l', s')"
          by (simp add: Let_def)
        then show ?thesis using Suc.IH p2 by blast
      next
        case False
        with Suc.prems(1) \<open>\<not> requested_state_m ?s0 \<noteq> AXIS_STATE_UNDEFINED\<close> w nostop hh p2
        show ?thesis by (simp add: Let_def)
      qed
    qed
  qed
qed

lemma frame_refl: "frame s s"
  by (simp add: frame_def)

lemma frame_trans: "frame s s1 \<Longrightarrow> frame s1 s2 \<Longrightarrow> frame s s2"
  by (auto simp: frame_def)

lemma frame_observe_request: "frame s (observe_request E s)"
  by (auto simp: frame_def observe_request_def split: prod.splits option.splits)

lemma frame_wait_for_current_meas: "frame s (snd (wait_for_current_meas E s))"
  by (auto simp: frame_def wait_for_current_meas_def ext_call_def split: prod.splits)

lemma frame_do_checks: "frame s (snd (do_checks E s))"
  by (auto simp: frame_def do_checks_def ext_call_def split: prod.splits)

lemma frame_step_cb: "frame s (step_cb E s)"
  by (auto simp: frame_def step_cb_def Let_def)

lemma frame_spin_up_ramp_handler: "frame s (snd (snd (spin_up_ramp_handler E x s)))"
  by (auto simp: frame_def spin_up_ramp_handler_def ext_call_def Let_def split: prod.splits)

lemma frame_spin_up_accel_handler: "frame s (snd (snd (spin_up_accel_handler E l s)))"
  by (auto simp: frame_def spin_up_accel_handler_def ext_call_def Let_def split: prod.splits)

lemma frame_sensorless_control_handler: "frame s (snd (snd (sensorless_control_handler E l s)))"
  by (auto simp: frame_def sensorless_control_handler_def ext_call_def split: prod.splits)

lemma frame_closed_loop_control_handler: "frame s (snd (snd (closed_loop_control_handler E l s)))"
  by (auto simp: frame_def closed_loop_control_handler_def ext_call_def split: prod.splits)

lemma frame_idle_handler: "frame s (snd (snd (idle_handler E l s)))"
  by (auto simp: frame_def idle_handler_def ext_call_def split: prod.splits)

lemma frame_run_control_loop:
  assumes "run_control_loop n E h l s = Some (l', s')"
    and "\<And>l s. frame s (snd (snd (h l s)))"
  shows "frame s s'"
proof -
  have "frame s s'"
  proof (rule run_control_loop_preserves [where P = "frame s", OF assms(1)])
    show "frame s s" by (rule frame_refl)
  next
    fix t assume "frame s t"
    then show "frame s (observe_request E t)"
      using frame_observe_request frame_trans by blast
  next
    fix t assume "frame s t"
    then show "frame s (snd (wait_for_current_meas E t))"
      using frame_wait_for_current_meas frame_trans by blast
  next
    fix l t assume "frame s t"
    then show "frame s (snd (snd (h l t)))"
      using assms(2) frame_trans by blast
  qed
  then show ?thesis .
qed


subsection \<open>Effects of the basic operations\<close>

lemma load_task_chain_fields:
  assumes "load_task_chain s = Inr s1"
  shows "requested_state_m s1 = AXIS_STATE_UNDEFINED" "error_m s1 = error_m s"
    "world s1 = world s" "calls s1 = calls s" "config_m s1 = config_m s"
    "enable_step_dir_m s1 = enable_step_dir_m s"
  using assms
  by (auto simp: load_task_chain_def split: if_splits sum.splits prod.splits)

lemma validate_state_fields:
  "requested_state_m (validate_state E s) = requested_state_m s"
  "error_m (validate_state E s) = error_m s"
  "world (validate_state E s) = world s"
  "calls (validate_state E s) = calls s"
  "config_m (validate_state E s) = config_m s"
  "enable_step_dir_m (validate_state E s) = enable_step_dir_m s"
  by (simp_all add: validate_state_def set_current_state_def Let_def)


lemma set_step_dir_enabled_fields:
  "error_m (set_step_dir_enabled E b s) = error_m s"
  "config_m (set_step_dir_enabled E b s) = config_m s"
  "task_chain_m (set_step_dir_enabled E b s) = task_chain_m s"
  "requested_state_m (set_step_dir_enabled E b s) = requested_state_m s"
  "enable_step_dir_m (set_step_dir_enabled E b s) = b"
  "calls (set_step_dir_enabled E b s) =
     calls s @ (if b then [GpioInitDir, GpioSubscribe] else [GpioUnsubscribe])"
  by (simp_all add: set_step_dir_enabled_def)

lemma ext_call_fields:
  "error_m (snd (ext_call c m s)) = error_m s"
  "config_m (snd (ext_call c m s)) = config_m s"
  "task_chain_m (snd (ext_call c m s)) = task_chain_m s"
  "requested_state_m (snd (ext_call c m s)) = requested_state_m s"
  "enable_step_dir_m (snd (ext_call c m s)) = enable_step_dir_m s"
  by (simp_all add: ext_call_def split: prod.splits)

subsection \<open>The loops as a whole\<close>

lemma run_idle_loop_frame:
  assumes "run_idle_loop fuel E s = Some (st, s')"
  shows "frame s s'"
proof -
  from assms obtain l where "run_control_loop fuel E (idle_handler E) () s = Some (l, s')"
    by (auto simp: run_idle_loop_def split: option.splits)
  then show ?thesis
    by (rule frame_run_control_loop) (rule frame_idle_handler)
qed

lemma run_sensorless_spin_up_frame:
  assumes "run_sensorless_spin_up fuel E s = Some (st, s')"
  shows "frame s s'" and "error_m s \<noteq> ERROR_NO_ERROR \<Longrightarrow> \<not> st"
proof -
  from assms obtain x s1 where
    r1: "run_control_loop fuel E (spin_up_ramp_handler E) (f_zero E) s = Some (x, s1)"
    by (auto simp: run_sensorless_spin_up_def split: option.splits)
  have f1: "frame s s1"
    using r1 by (rule frame_run_control_loop) (rule frame_spin_up_ramp_handler)
  show "frame s s'"
  proof (cases "error_m s1 \<noteq> ERROR_NO_ERROR")
    case True
    with assms r1 have "s' = s1" by (simp add: run_sensorless_spin_up_def)
    with f1 show ?thesis by simp
  next
    case False
    with assms r1 obtain l where
      "run_control_loop fuel E (spin_up_accel_handler E)
         (f_div E (ramp_up_distance (config_m s1)) (ramp_up_time (config_m s1)),
          wrap_pm_pi E (ramp_up_distance (config_m s1))) s1 = Some (l, s')"
      by (auto simp: run_sensorless_spin_up_def Let_def split: option.splits)
    then have "frame s1 s'"
      by (rule frame_run_control_loop) (rule frame_spin_up_accel_handler)
    with f1 show ?thesis by (rule frame_trans)
  qed
  show "\<not> st" if "error_m s \<noteq> ERROR_NO_ERROR"
  proof -
    from that f1 have "error_m s1 \<noteq> ERROR_NO_ERROR" by (simp add: frame_def)
    with assms r1 show ?thesis by (simp add: run_sensorless_spin_up_def)
  qed
qed

lemma run_sensorless_control_loop_effect:
  assumes "run_sensorless_control_loop fuel E s = Some (st, s')"
  shows "\<exists>s2. run_control_loop fuel E (sensorless_control_handler E) ()
                  (set_step_dir_enabled E (enable_step_dir (config_m s)) s) = Some ((), s2) \<and>
           frame (set_step_dir_enabled E (enable_step_dir (config_m s)) s) s2 \<and>
           s' = set_step_dir_enabled E False s2 \<and> st = (error_m s2 = ERROR_NO_ERROR)"
proof -
  let ?s1 = "set_step_dir_enabled E (enable_step_dir (config_m s)) s"
  from assms obtain s2 where
    r: "run_control_loop fuel E (sensorless_control_handler E) () ?s1 = Some ((), s2)"
    by (auto simp: run_sensorless_control_loop_def Let_def split: option.splits)
  have "frame ?s1 s2"
    using r by (rule frame_run_control_loop) (rule frame_sensorless_control_handler)
  moreover from assms r have "s' = set_step_dir_enabled E False s2"
    and "st = (error_m s2 = ERROR_NO_ERROR)"
    by (auto simp: run_sensorless_control_loop_def Let_def set_step_dir_enabled_fields)
  ultimately show ?thesis using r by blast
qed

lemma run_closed_loop_control_loop_effect:
  assumes "run_closed_loop_control_loop fuel E s = Some (st, s')"
  shows "\<exists>s2. run_control_loop fuel E (closed_loop_control_handler E) ()
                  (set_step_dir_enabled E (enable_step_dir (config_m s)) s) = Some ((), s2) \<and>
           frame (set_step_dir_enabled E (enable_step_dir (config_m s)) s) s2 \<and>
           s' = set_step_dir_enabled E False s2 \<and> st = (error_m s2 = ERROR_NO_ERROR)"
proof -
  let ?s1 = "set_step_dir_enabled E (enable_step_dir (config_m s)) s"
  from assms obtain s2 where
    r: "run_control_loop fuel E (closed_loop_control_handler E) () ?s1 = Some ((), s2)"
    by (auto simp: run_closed_loop_control_loop_def Let_def split: option.splits)
  have "frame ?s1 s2"
    using r by (rule frame_run_control_loop) (rule frame_closed_loop_control_handler)
  moreover from assms r have "s' = set_step_dir_enabled E False s2"
    and "st = (error_m s2 = ERROR_NO_ERROR)"
    by (auto simp: run_closed_loop_control_loop_def Let_def set_step_dir_enabled_fields)
  ultimately show ?thesis using r by blast
qed

lemma frame_keeps: "frame s s' \<Longrightarrow> keeps s s'"
  by (simp add: frame_def keeps_def)

lemma keeps_trans: "keeps s s1 \<Longrightarrow> keeps s1 s2 \<Longrightarrow> keeps s s2"
  by (auto simp: keeps_def)

lemma run_sensorless_control_loop_keeps:
  assumes "run_sensorless_control_loop fuel E s = Some (st, s')"
  shows "keeps s s'" and "error_m s \<noteq> ERROR_NO_ERROR \<Longrightarrow> \<not> st"
  using run_sensorless_control_loop_effect [OF assms]
  by (auto simp: keeps_def frame_def set_step_dir_enabled_fields)

lemma run_closed_loop_control_loop_keeps:
  assumes "run_closed_loop_control_loop fuel E s = Some (st, s')"
  shows "keeps s s'" and "error_m s \<noteq> ERROR_NO_ERROR \<Longrightarrow> \<not> st"
  using run_closed_loop_control_loop_effect [OF assms]
  by (auto simp: keeps_def frame_def set_step_dir_enabled_fields)

lemma run_current_state_keeps:
  assumes "run_current_state fuel E s = Some (st, s')"
  shows "keeps s s'"
proof (cases "current_state_m s")
  case AXIS_STATE_SENSORLESS_CONTROL
  with assms obtain b s1 where
    a: "run_sensorless_spin_up fuel E s = Some (b, s1)"
    and b: "if b then run_sensorless_control_loop fuel E s1 = Some (st, s') else s' = s1"
    by (auto simp: run_current_state_def split: option.splits if_splits)
  have "keeps s s1" using run_sensorless_spin_up_frame(1) [OF a] by (rule frame_keeps)
  moreover have "keeps s1 s'"
  proof (cases b)
    case True
    with b have "run_sensorless_control_loop fuel E s1 = Some (st, s')" by simp
    then show ?thesis by (rule run_sensorless_control_loop_keeps(1))
  next
    case False
    with b show ?thesis by (simp add: keeps_def)
  qed
  ultimately show ?thesis by (rule keeps_trans)
next
  case AXIS_STATE_CLOSED_LOOP_CONTROL
  with assms show ?thesis
    using run_closed_loop_control_loop_keeps(1) by (simp add: run_current_state_def)
next
  case AXIS_STATE_IDLE
  with assms obtain b s1 where a: "run_idle_loop fuel E s = Some (b, s1)"
    and b: "s' = snd (ext_call MotorArm (motor_arm E) s1)"
    by (auto simp: run_current_state_def split: option.splits)
  have "keeps s s1" using run_idle_loop_frame [OF a] by (rule frame_keeps)
  then show ?thesis using b by (simp add: keeps_def ext_call_fields)
qed (use assms in \<open>auto simp: run_current_state_def keeps_def ext_call_def split: prod.splits\<close>)


subsection \<open>One pass of the state machine\<close>

lemma advance_task_chain_fields:
  "error_m (advance_task_chain st s) = error_m s"
  "requested_state_m (advance_task_chain st s) = requested_state_m s"
  "world (advance_task_chain st s) = world s"
  "calls (advance_task_chain st s) = calls s"
  by (simp_all add: advance_task_chain_def set_current_state_def)

lemma state_machine_iteration_error:
  assumes "state_machine_iteration fuel E s = Inr (st, s')"
    and "error_m s \<noteq> ERROR_NO_ERROR"
  shows "error_m s' \<noteq> ERROR_NO_ERROR"
proof -
  from assms(1) obtain s1 s3 where
    l: "load_task_chain s = Inr s1"
    and r: "run_current_state fuel E (validate_state E s1) = Some (st, s3)"
    and a: "s' = advance_task_chain st s3"
    by (auto simp: state_machine_iteration_def split: sum.splits option.splits)
  have "error_m (validate_state E s1) \<noteq> ERROR_NO_ERROR"
    using assms(2) load_task_chain_fields(2) [OF l] by (simp add: validate_state_fields)
  then have "error_m s3 \<noteq> ERROR_NO_ERROR"
    using run_current_state_keeps [OF r] by (simp add: keeps_def)
  then show ?thesis using a by (simp add: advance_task_chain_fields)
qed

lemma state_machine_iterations_error:
  assumes "state_machine_iterations k fuel E s = Inr s'"
    and "error_m s \<noteq> ERROR_NO_ERROR"
  shows "error_m s' \<noteq> ERROR_NO_ERROR"
  using assms
proof (induction k arbitrary: s)
  case 0
  then show ?case by simp
next
  case (Suc k)
  from Suc.prems(1) obtain st s1 where
    i: "state_machine_iteration fuel E s = Inr (st, s1)"
    and r: "state_machine_iterations k fuel E s1 = Inr s'"
    by (auto split: sum.splits)
  have "error_m s1 \<noteq> ERROR_NO_ERROR"
    using i Suc.prems(2) by (rule state_machine_iteration_error)
  with r show ?case by (rule Suc.IH)
qed

text \<open>
  Claim C5. No operation of the axis resets the error value to \<open>ERROR_NO_ERROR\<close>: once
  an error is set, it is still set after \<^verbatim>\<open>wait_for_current_meas\<close>, \<^verbatim>\<open>do_checks\<close>,
  \<^verbatim>\<open>step_cb\<close>, \<^verbatim>\<open>set_step_dir_enabled\<close>, each of the loops and any number of passes of the
  state machine (from any axis, and from the start of \<^verbatim>\<open>run_state_machine_loop\<close>); and the sensorless spin-up, the sensorless control loop and the closed
  loop control loop (the idle loop as well) then report failure whenever they return,
  whatever the collaborators answer. The collaborators of the model act on the world
  only, so none of them writes the error value behind the axis's back.
\<close>

theorem C5_error_is_never_cleared:
  assumes "error_m s \<noteq> ERROR_NO_ERROR"
  shows "error_m (snd (wait_for_current_meas E s)) \<noteq> ERROR_NO_ERROR
       \<and> error_m (snd (do_checks E s)) \<noteq> ERROR_NO_ERROR
       \<and> error_m (step_cb E s) \<noteq> ERROR_NO_ERROR
       \<and> error_m (set_step_dir_enabled E b s) \<noteq> ERROR_NO_ERROR
       \<and> (\<forall>st s'. run_idle_loop fuel E s = Some (st, s')
             \<longrightarrow> \<not> st \<and> error_m s' \<noteq> ERROR_NO_ERROR)
       \<and> (\<forall>st s'. run_sensorless_spin_up fuel E s = Some (st, s')
             \<longrightarrow> \<not> st \<and> error_m s' \<noteq> ERROR_NO_ERROR)
       \<and> (\<forall>st s'. run_sensorless_control_loop fuel E s = Some (st, s')
             \<longrightarrow> \<not> st \<and> error_m s' \<noteq> ERROR_NO_ERROR)
       \<and> (\<forall>st s'. run_closed_loop_control_loop fuel E s = Some (st, s')
             \<longrightarrow> \<not> st \<and> error_m s' \<noteq> ERROR_NO_ERROR)
       \<and> (\<forall>s'. state_machine_iterations k fuel E s = Inr s'
             \<longrightarrow> error_m s' \<noteq> ERROR_NO_ERROR)
       \<and> (\<forall>s'. run_state_machine_loop k fuel E s = Inr s'
             \<longrightarrow> error_m s' \<noteq> ERROR_NO_ERROR)"
proof (intro conjI allI impI)
  show "error_m (snd (wait_for_current_meas E s)) \<noteq> ERROR_NO_ERROR"
    using assms frame_wait_for_current_meas [of s E] by (simp add: frame_def)
  show "error_m (snd (do_checks E s)) \<noteq> ERROR_NO_ERROR"
    using assms frame_do_checks [of s E] by (simp add: frame_def)
  show "error_m (step_cb E s) \<noteq> ERROR_NO_ERROR"
    using assms frame_step_cb [of s E] by (simp add: frame_def)
  show "error_m (set_step_dir_enabled E b s) \<noteq> ERROR_NO_ERROR"
    using assms by (simp add: set_step_dir_enabled_fields)
next
  fix st s' assume r: "run_idle_loop fuel E s = Some (st, s')"
  show "error_m s' \<noteq> ERROR_NO_ERROR"
    using assms run_idle_loop_frame [OF r] by (simp add: frame_def)
  then show "\<not> st"
    using r by (auto simp: run_idle_loop_def split: option.splits)
next
  fix st s' assume r: "run_sensorless_spin_up fuel E s = Some (st, s')"
  show "\<not> st" using assms run_sensorless_spin_up_frame(2) [OF r] by simp
  show "error_m s' \<noteq> ERROR_NO_ERROR"
    using assms run_sensorless_spin_up_frame(1) [OF r] by (simp add: frame_def)
next
  fix st s' assume r: "run_sensorless_control_loop fuel E s = Some (st, s')"
  show "\<not> st" using assms run_sensorless_control_loop_keeps(2) [OF r] by simp
  show "error_m s' \<noteq> ERROR_NO_ERROR"
    using assms run_sensorless_control_loop_keeps(1) [OF r] by (simp add: keeps_def)
next
  fix st s' assume r: "run_closed_loop_control_loop fuel E s = Some (st, s')"
  show "\<not> st" using assms run_closed_loop_control_loop_keeps(2) [OF r] by simp
  show "error_m s' \<noteq> ERROR_NO_ERROR"
    using assms run_closed_loop_control_loop_keeps(1) [OF r] by (simp add: keeps_def)
next
  fix s' assume "state_machine_iterations k fuel E s = Inr s'"
  then show "error_m s' \<noteq> ERROR_NO_ERROR"
    using assms by (rule state_machine_iterations_error)
next
  fix s' assume r: "run_state_machine_loop k fuel E s = Inr s'"
  let ?s1 = "snd (ext_call MotorArm (motor_arm E)
                    (s\<lparr>world := controller_alloc_cogging_map E (world s)\<rparr>))"
  have "error_m ?s1 \<noteq> ERROR_NO_ERROR"
    using assms by (simp add: ext_call_fields)
  moreover have "state_machine_iterations k fuel E ?s1 = Inr s'"
    using r by (simp add: run_state_machine_loop_def Let_def)
  ultimately show "error_m s' \<noteq> ERROR_NO_ERROR"
    by (rule state_machine_iterations_error [rotated])
qed

subsection \<open>After a failure\<close>


lemma validate_state_idle:
  assumes "current_state_m s = AXIS_STATE_IDLE"
    and "state_value E AXIS_STATE_IDLE \<le> state_value E AXIS_STATE_MOTOR_CALIBRATION
         \<or> motor_is_calibrated E (world s)"
    and "state_value E AXIS_STATE_IDLE \<le> state_value E AXIS_STATE_ENCODER_CALIBRATION
         \<or> encoder_is_calibrated E (world s)"
  shows "validate_state E s = s"
  using assms by (auto simp: validate_state_def Let_def)


text \<open>
  Claim C4. If after loading the head of the chain is \<open>AXIS_STATE_CLOSED_LOOP_CONTROL\<close>
  and the encoder is not calibrated, the validation replaces the head by
  \<open>AXIS_STATE_UNDEFINED\<close> before the switch; the pass sets \<open>ERROR_INVALID_STATE\<close>, its status
  is failure, it makes no call at all (the calls and the world are those before the
  pass, so the closed loop body has not run), and the next pass dispatches Idle. The
  enumerators are compared by value: closed loop control is above encoder calibration,
  and Idle is above neither calibration state.
\<close>

theorem C4_closed_loop_needs_calibrated_encoder:
  assumes "load_task_chain s = Inr s1"
    and "task_chain_m s1 \<noteq> []"
    and "current_state_m s1 = AXIS_STATE_CLOSED_LOOP_CONTROL"
    and "\<not> encoder_is_calibrated E (world s1)"
    and "state_value E AXIS_STATE_ENCODER_CALIBRATION
           < state_value E AXIS_STATE_CLOSED_LOOP_CONTROL"
    and "state_value E AXIS_STATE_IDLE \<le> state_value E AXIS_STATE_ENCODER_CALIBRATION"
    and "state_value E AXIS_STATE_IDLE \<le> state_value E AXIS_STATE_MOTOR_CALIBRATION"
  shows "dispatched_state E s = Inr AXIS_STATE_UNDEFINED
       \<and> state_machine_iteration fuel E s =
           Inr (False, s1\<lparr>error_m := ERROR_INVALID_STATE,
                          task_chain_m := (task_chain_m s1)[0 := AXIS_STATE_IDLE]\<rparr>)
       \<and> calls (s1\<lparr>error_m := ERROR_INVALID_STATE,
                    task_chain_m := (task_chain_m s1)[0 := AXIS_STATE_IDLE]\<rparr>) = calls s
       \<and> world (s1\<lparr>error_m := ERROR_INVALID_STATE,
                    task_chain_m := (task_chain_m s1)[0 := AXIS_STATE_IDLE]\<rparr>) = world s
       \<and> dispatched_state E
           (s1\<lparr>error_m := ERROR_INVALID_STATE,
               task_chain_m := (task_chain_m s1)[0 := AXIS_STATE_IDLE]\<rparr>) = Inr AXIS_STATE_IDLE"
proof -
  let ?s' = "s1\<lparr>error_m := ERROR_INVALID_STATE,
                task_chain_m := (task_chain_m s1)[0 := AXIS_STATE_IDLE]\<rparr>"
  have v: "validate_state E s1 = set_current_state AXIS_STATE_UNDEFINED s1"
    using assms(2-5)
    by (auto simp: validate_state_def Let_def set_current_state_def current_state_m_def)
  have h: "current_state_m (set_current_state AXIS_STATE_UNDEFINED s1) = AXIS_STATE_UNDEFINED"
    using assms(2) by (simp add: set_current_state_def current_state_m_def)
  have d: "dispatched_state E s = Inr AXIS_STATE_UNDEFINED"
    using assms(1) v h by (simp add: dispatched_state_def)
  have it: "state_machine_iteration fuel E s = Inr (False, ?s')"
    using assms(1) v h
    by (simp add: state_machine_iteration_def run_current_state_def advance_task_chain_def
        set_current_state_def)
  have rq: "requested_state_m ?s' = AXIS_STATE_UNDEFINED"
    using load_task_chain_fields(1) [OF assms(1)] by simp
  have hd: "current_state_m ?s' = AXIS_STATE_IDLE"
    using assms(2) by (simp add: current_state_m_def)
  have "validate_state E ?s' = ?s'"
    using hd assms(6,7) by (intro validate_state_idle) auto
  then have nx: "dispatched_state E ?s' = Inr AXIS_STATE_IDLE"
    using rq hd by (simp add: dispatched_state_def load_task_chain_def)
  show ?thesis
    using d it nx load_task_chain_fields(3,4) [OF assms(1)] by simp
qed


subsection \<open>Loading\<close>

lemma expand_startup:
  assumes "length (startup_sequence_spec cfg) \<le> length chain"
  shows "expand_request cfg AXIS_STATE_STARTUP_SEQUENCE chain =
           Inr (length (startup_sequence_spec cfg),
                startup_sequence_spec cfg @ drop (length (startup_sequence_spec cfg)) chain)"
  using assms
  by (cases "startup_motor_calibration cfg"; cases "startup_encoder_calibration cfg";
      cases "startup_closed_loop_control cfg"; cases "startup_sensorless_control cfg")
     (auto simp: expand_request_def startup_sequence_spec_def chain_store_def Let_def
        Suc_le_length_iff eval_nat_numeral)


text \<open>
  Claim C3. For every configuration, loading a \<open>AXIS_STATE_STARTUP_SEQUENCE\<close> request
  writes to the front of the chain exactly the sequence of the specification's table
  (motor calibration iff its flag is set, encoder calibration iff its flag is set, closed
  loop control if its flag is set, else sensorless control if its flag is set, then Idle,
  then the sentinel), never both control states, and clears the request. The capacity
  is the length of the chain; it has to hold the sequence.
\<close>

theorem C3_startup_sequence_chain:
  assumes "requested_state_m s = AXIS_STATE_STARTUP_SEQUENCE"
    and "length (startup_sequence_spec (config_m s)) \<le> length (task_chain_m s)"
  shows "load_task_chain s =
           Inr (s\<lparr>task_chain_m :=
                    startup_sequence_spec (config_m s)
                    @ drop (length (startup_sequence_spec (config_m s))) (task_chain_m s),
                  requested_state_m := AXIS_STATE_UNDEFINED\<rparr>)
       \<and> \<not> (AXIS_STATE_CLOSED_LOOP_CONTROL \<in> set (startup_sequence_spec (config_m s))
            \<and> AXIS_STATE_SENSORLESS_CONTROL \<in> set (startup_sequence_spec (config_m s)))"
proof
  show "load_task_chain s =
           Inr (s\<lparr>task_chain_m :=
                    startup_sequence_spec (config_m s)
                    @ drop (length (startup_sequence_spec (config_m s))) (task_chain_m s),
                  requested_state_m := AXIS_STATE_UNDEFINED\<rparr>)"
    using assms(1) expand_startup [OF assms(2)] by (simp add: load_task_chain_def)
  show "\<not> (AXIS_STATE_CLOSED_LOOP_CONTROL \<in> set (startup_sequence_spec (config_m s))
            \<and> AXIS_STATE_SENSORLESS_CONTROL \<in> set (startup_sequence_spec (config_m s)))"
    by (simp add: startup_sequence_spec_def)
qed


subsection \<open>The sensorless loop in position mode\<close>

text \<open>
  Claim C6. In a round of the sensorless control loop that finds the controller's
  control mode at \<open>CTRL_MODE_POSITION_CONTROL\<close> (or above: the source compares with
  \<^verbatim>\<open>>=\<close>), the closure returns \<open>False\<close> with the error set to
  \<open>ERROR_POS_CTRL_DURING_SENSORLESS\<close> and nothing else changed: no call has been added,
  so neither the estimator nor the controller nor the motor was updated; and the runner
  returns that very axis, in whichever round this happens.
\<close>

theorem C6_position_mode_stops_sensorless_loop:
  assumes "CTRL_MODE_POSITION_CONTROL E \<le> controller_control_mode E (world s)"
  shows "sensorless_control_handler E l s =
           (False, (), s\<lparr>error_m := ERROR_POS_CTRL_DURING_SENSORLESS\<rparr>)
       \<and> (\<forall>n s0. requested_state_m (observe_request E s0) = AXIS_STATE_UNDEFINED
                 \<and> wait_for_current_meas E (observe_request E s0) = (True, s)
              \<longrightarrow> run_control_loop (Suc n) E (sensorless_control_handler E) l s0 =
                    Some ((), s\<lparr>error_m := ERROR_POS_CTRL_DURING_SENSORLESS\<rparr>))"
proof -
  have h: "sensorless_control_handler E l s =
             (False, (), s\<lparr>error_m := ERROR_POS_CTRL_DURING_SENSORLESS\<rparr>)"
    using assms by (simp add: sensorless_control_handler_def)
  then show ?thesis by (simp add: Let_def)
qed

subsection \<open>Step/direction input around the loops\<close>

lemma bracket:
  assumes "frame (set_step_dir_enabled E b s) s2"
  shows "enable_step_dir_m s2 = b
       \<and> \<not> enable_step_dir_m (set_step_dir_enabled E False s2)
       \<and> (\<exists>tr. calls (set_step_dir_enabled E False s2) =
                  calls s @ (if b then [GpioInitDir, GpioSubscribe] else [GpioUnsubscribe])
                  @ tr @ [GpioUnsubscribe])"
  using assms by (auto simp: frame_def set_step_dir_enabled_fields)

text \<open>
  Claim C8, as amended. For the sensorless and the closed loop control loop alike:
  the first thing a run does is \<^verbatim>\<open>set_step_dir_enabled(config_.enable_step_dir)\<close>, so
  step/dir input is subscribed at entry if the configuration enables it and
  unsubscribed otherwise; the flag has that value when the runner returns; and the last
  thing the run does, whatever its status, is to unsubscribe and clear the flag.
\<close>

theorem C8_step_dir_follows_configuration:
  "(\<forall>st s'. run_sensorless_control_loop fuel E s = Some (st, s') \<longrightarrow>
      (\<exists>s2. run_control_loop fuel E (sensorless_control_handler E) ()
                (set_step_dir_enabled E (enable_step_dir (config_m s)) s) = Some ((), s2)
           \<and> enable_step_dir_m s2 = enable_step_dir (config_m s)
           \<and> s' = set_step_dir_enabled E False s2)
      \<and> \<not> enable_step_dir_m s'
      \<and> (\<exists>tr. calls s' =
                 calls s
                 @ (if enable_step_dir (config_m s) then [GpioInitDir, GpioSubscribe]
                    else [GpioUnsubscribe])
                 @ tr @ [GpioUnsubscribe]))
 \<and> (\<forall>st s'. run_closed_loop_control_loop fuel E s = Some (st, s') \<longrightarrow>
      (\<exists>s2. run_control_loop fuel E (closed_loop_control_handler E) ()
                (set_step_dir_enabled E (enable_step_dir (config_m s)) s) = Some ((), s2)
           \<and> enable_step_dir_m s2 = enable_step_dir (config_m s)
           \<and> s' = set_step_dir_enabled E False s2)
      \<and> \<not> enable_step_dir_m s'
      \<and> (\<exists>tr. calls s' =
                 calls s
                 @ (if enable_step_dir (config_m s) then [GpioInitDir, GpioSubscribe]
                    else [GpioUnsubscribe])
                 @ tr @ [GpioUnsubscribe]))"
proof (intro conjI allI impI)
  fix st s' assume r: "run_sensorless_control_loop fuel E s = Some (st, s')"
  from run_sensorless_control_loop_effect [OF r] obtain s2 where
    rc: "run_control_loop fuel E (sensorless_control_handler E) ()
           (set_step_dir_enabled E (enable_step_dir (config_m s)) s) = Some ((), s2)"
    and f: "frame (set_step_dir_enabled E (enable_step_dir (config_m s)) s) s2"
    and e: "s' = set_step_dir_enabled E False s2" by blast
  show "\<exists>s2. run_control_loop fuel E (sensorless_control_handler E) ()
                (set_step_dir_enabled E (enable_step_dir (config_m s)) s) = Some ((), s2)
           \<and> enable_step_dir_m s2 = enable_step_dir (config_m s)
           \<and> s' = set_step_dir_enabled E False s2"
    using bracket [OF f] rc e by blast
  show "\<not> enable_step_dir_m s'" using bracket [OF f] e by blast
  show "\<exists>tr. calls s' =
                 calls s
                 @ (if enable_step_dir (config_m s) then [GpioInitDir, GpioSubscribe]
                    else [GpioUnsubscribe])
                 @ tr @ [GpioUnsubscribe]"
    using bracket [OF f] e by blast
next
  fix st s' assume r: "run_closed_loop_control_loop fuel E s = Some (st, s')"
  from run_closed_loop_control_loop_effect [OF r] obtain s2 where
    rc: "run_control_loop fuel E (closed_loop_control_handler E) ()
           (set_step_dir_enabled E (enable_step_dir (config_m s)) s) = Some ((), s2)"
    and f: "frame (set_step_dir_enabled E (enable_step_dir (config_m s)) s) s2"
    and e: "s' = set_step_dir_enabled E False s2" by blast
  show "\<exists>s2. run_control_loop fuel E (closed_loop_control_handler E) ()
                (set_step_dir_enabled E (enable_step_dir (config_m s)) s) = Some ((), s2)
           \<and> enable_step_dir_m s2 = enable_step_dir (config_m s)
           \<and> s' = set_step_dir_enabled E False s2"
    using bracket [OF f] rc e by blast
  show "\<not> enable_step_dir_m s'" using bracket [OF f] e by blast
  show "\<exists>tr. calls s' =
                 calls s
                 @ (if enable_step_dir (config_m s) then [GpioInitDir, GpioSubscribe]
                    else [GpioUnsubscribe])
                 @ tr @ [GpioUnsubscribe]"
    using bracket [OF f] e by blast
qed

subsection \<open>Monitoring-only updates\<close>

lemma run_control_loop_cong:
  assumes "observe_request E' = observe_request E"
    and "wait_for_current_meas E' = wait_for_current_meas E"
  shows "run_control_loop n E' h l s = run_control_loop n E h l s"
proof (induction n arbitrary: l s)
  case 0
  show ?case by simp
next
  case (Suc n)
  show ?case by (simp add: assms Suc.IH Let_def split: prod.splits)
qed

lemma with_monitoring_result_runner:
  "observe_request (with_monitoring_result r E) = observe_request E"
  "wait_for_current_meas (with_monitoring_result r E) = wait_for_current_meas E"
  "set_step_dir_enabled (with_monitoring_result r E) = set_step_dir_enabled E"
  by (auto simp: fun_eq_iff with_monitoring_result_def observe_request_def
      wait_for_current_meas_def set_step_dir_enabled_def)

lemma with_monitoring_result_handlers:
  "sensorless_control_handler (with_monitoring_result r E) = sensorless_control_handler E"
  "closed_loop_control_handler (with_monitoring_result r E) = closed_loop_control_handler E"
  "idle_handler (with_monitoring_result r E) = idle_handler E"
  by (auto simp: fun_eq_iff with_monitoring_result_def sensorless_control_handler_def
      closed_loop_control_handler_def idle_handler_def ext_call_def split: prod.splits)

text \<open>
  Claim C10. The boolean that a monitoring-only update returns is discarded: replacing
  it by any other value (\<open>\<lambda>w. False\<close>, say) changes nothing in what the sensorless
  control loop, the closed loop control loop and the idle loop return, neither the
  status nor the error nor the number of rounds; and the closure of the idle loop always
  asks for another round and leaves the error value alone.
\<close>

theorem C10_monitoring_result_is_discarded:
  "run_sensorless_control_loop fuel (with_monitoring_result r E) s =
     run_sensorless_control_loop fuel E s
 \<and> run_closed_loop_control_loop fuel (with_monitoring_result r E) s =
     run_closed_loop_control_loop fuel E s
 \<and> run_idle_loop fuel (with_monitoring_result r E) s = run_idle_loop fuel E s
 \<and> fst (idle_handler E l s)
 \<and> error_m (snd (snd (idle_handler E l s))) = error_m s"
proof (intro conjI)
  have rc: "run_control_loop fuel (with_monitoring_result r E) h l' t =
            run_control_loop fuel E h l' t" for h :: "unit \<Rightarrow> _" and l' t
    by (rule run_control_loop_cong) (rule with_monitoring_result_runner)+
  show "run_sensorless_control_loop fuel (with_monitoring_result r E) s =
          run_sensorless_control_loop fuel E s"
    by (simp add: run_sensorless_control_loop_def with_monitoring_result_runner
        with_monitoring_result_handlers rc Let_def split: option.splits)
  show "run_closed_loop_control_loop fuel (with_monitoring_result r E) s =
          run_closed_loop_control_loop fuel E s"
    by (simp add: run_closed_loop_control_loop_def with_monitoring_result_runner
        with_monitoring_result_handlers rc Let_def split: option.splits)
  show "run_idle_loop fuel (with_monitoring_result r E) s = run_idle_loop fuel E s"
    by (simp add: run_idle_loop_def with_monitoring_result_handlers rc)
  show "fst (idle_handler E l s)"
    by (simp add: idle_handler_def split: prod.splits)
  show "error_m (snd (snd (idle_handler E l s))) = error_m s"
    by (simp add: idle_handler_def ext_call_def split: prod.splits)
qed

section \<open>Simulated runs of the theorems\<close>

text \<open>
  Witness for C5: the axis starts with \<open>ERROR_ENCODER_FAILED\<close> set; every collaborator
  succeeds; each loop returns, with status failure, and the error is still set after a
  pass of the state machine.
\<close>

theorem C5_error_is_never_cleared_witness:
  "error_m sim_c5_start \<noteq> ERROR_NO_ERROR
 \<and> map_option fst (run_sensorless_spin_up 2 sim_env sim_c5_start) = Some False
 \<and> map_option fst (run_sensorless_control_loop 2 sim_env sim_c5_start) = Some False
 \<and> map_option fst (run_closed_loop_control_loop 2 sim_env sim_c5_start) = Some False
 \<and> map_option fst (run_idle_loop 2 sim_env sim_c5_start) = Some False
 \<and> \<not> isl (state_machine_iterations 1 2 sim_env sim_c5_start)
 \<and> error_m (projr (state_machine_iterations 1 2 sim_env sim_c5_start)) \<noteq> ERROR_NO_ERROR"
proof -
  have h: "error_m sim_c5_start \<noteq> ERROR_NO_ERROR"
    by code_simp
  have r1: "run_sensorless_spin_up 2 sim_env sim_c5_start \<noteq> None"
    and r2: "run_sensorless_control_loop 2 sim_env sim_c5_start \<noteq> None"
    and r3: "run_closed_loop_control_loop 2 sim_env sim_c5_start \<noteq> None"
    and r4: "run_idle_loop 2 sim_env sim_c5_start \<noteq> None"
    and r5: "\<not> isl (state_machine_iterations 1 2 sim_env sim_c5_start)"
    by code_simp+
  from r5 obtain s' where r5': "state_machine_iterations 1 2 sim_env sim_c5_start = Inr s'"
    by (cases "state_machine_iterations 1 2 sim_env sim_c5_start") auto
  show ?thesis
    using h r1 r2 r3 r4 r5 r5'
      C5_error_is_never_cleared [OF h, where E = sim_env and fuel = 2 and k = 1]
    by auto
qed



text \<open>
  Witness for C4: closed loop control is requested in \<open>sim_c4_start\<close>, where the encoder
  is not calibrated.
\<close>

theorem C4_closed_loop_needs_calibrated_encoder_witness:
  "load_task_chain sim_c4_start = Inr sim_c4_loaded
 \<and> task_chain_m sim_c4_loaded \<noteq> []
 \<and> current_state_m sim_c4_loaded = AXIS_STATE_CLOSED_LOOP_CONTROL
 \<and> \<not> encoder_is_calibrated sim_env (world sim_c4_loaded)
 \<and> state_value sim_env AXIS_STATE_ENCODER_CALIBRATION
      < state_value sim_env AXIS_STATE_CLOSED_LOOP_CONTROL
 \<and> state_value sim_env AXIS_STATE_IDLE \<le> state_value sim_env AXIS_STATE_ENCODER_CALIBRATION
 \<and> state_value sim_env AXIS_STATE_IDLE \<le> state_value sim_env AXIS_STATE_MOTOR_CALIBRATION
 \<and> dispatched_state sim_env sim_c4_start = Inr AXIS_STATE_UNDEFINED
 \<and> state_machine_iteration 0 sim_env sim_c4_start =
      Inr (False, sim_c4_loaded\<lparr>error_m := ERROR_INVALID_STATE,
                                task_chain_m := (task_chain_m sim_c4_loaded)[0 := AXIS_STATE_IDLE]\<rparr>)
 \<and> dispatched_state sim_env
      (sim_c4_loaded\<lparr>error_m := ERROR_INVALID_STATE,
                     task_chain_m := (task_chain_m sim_c4_loaded)[0 := AXIS_STATE_IDLE]\<rparr>)
      = Inr AXIS_STATE_IDLE"
proof -
  have h: "load_task_chain sim_c4_start = Inr sim_c4_loaded"
    "task_chain_m sim_c4_loaded \<noteq> []"
    "current_state_m sim_c4_loaded = AXIS_STATE_CLOSED_LOOP_CONTROL"
    "\<not> encoder_is_calibrated sim_env (world sim_c4_loaded)"
    "state_value sim_env AXIS_STATE_ENCODER_CALIBRATION
       < state_value sim_env AXIS_STATE_CLOSED_LOOP_CONTROL"
    "state_value sim_env AXIS_STATE_IDLE \<le> state_value sim_env AXIS_STATE_ENCODER_CALIBRATION"
    "state_value sim_env AXIS_STATE_IDLE \<le> state_value sim_env AXIS_STATE_MOTOR_CALIBRATION"
    by code_simp+
  show ?thesis
    using h C4_closed_loop_needs_calibrated_encoder [OF h, of 0] by simp
qed

text \<open>Witness for C3: the start-up request of \<open>sim_c3_start\<close>, with capacity five.\<close>

theorem C3_startup_sequence_chain_witness:
  "requested_state_m sim_c3_start = AXIS_STATE_STARTUP_SEQUENCE
 \<and> length (startup_sequence_spec (config_m sim_c3_start)) \<le> length (task_chain_m sim_c3_start)
 \<and> load_task_chain sim_c3_start = Inr sim_c3_loaded"
proof -
  have h: "requested_state_m sim_c3_start = AXIS_STATE_STARTUP_SEQUENCE"
    "length (startup_sequence_spec (config_m sim_c3_start)) \<le> length (task_chain_m sim_c3_start)"
    by code_simp+
  have e: "sim_c3_start\<lparr>task_chain_m :=
               startup_sequence_spec (config_m sim_c3_start)
               @ drop (length (startup_sequence_spec (config_m sim_c3_start)))
                   (task_chain_m sim_c3_start),
             requested_state_m := AXIS_STATE_UNDEFINED\<rparr> = sim_c3_loaded"
    by code_simp
  show ?thesis
    using h e C3_startup_sequence_chain [OF h] by simp
qed



text \<open>
  Witness for C6: in \<open>sim_c6_start\<close> the control mode is the position mode; the first
  round of the runner gets to the closure in \<open>sim_c6_waited\<close> and stops there.
\<close>

theorem C6_position_mode_stops_sensorless_loop_witness:
  "CTRL_MODE_POSITION_CONTROL sim_env \<le> controller_control_mode sim_env (world sim_c6_waited)
 \<and> sensorless_control_handler sim_env () sim_c6_waited =
      (False, (), sim_c6_waited\<lparr>error_m := ERROR_POS_CTRL_DURING_SENSORLESS\<rparr>)
 \<and> requested_state_m (observe_request sim_env sim_c6_start) = AXIS_STATE_UNDEFINED
 \<and> wait_for_current_meas sim_env (observe_request sim_env sim_c6_start) = (True, sim_c6_waited)
 \<and> run_control_loop (Suc 0) sim_env (sensorless_control_handler sim_env) () sim_c6_start =
      Some ((), sim_c6_waited\<lparr>error_m := ERROR_POS_CTRL_DURING_SENSORLESS\<rparr>)"
proof -
  have h: "CTRL_MODE_POSITION_CONTROL sim_env
             \<le> controller_control_mode sim_env (world sim_c6_waited)"
    by code_simp
  have o: "requested_state_m (observe_request sim_env sim_c6_start) = AXIS_STATE_UNDEFINED"
    and w: "wait_for_current_meas sim_env (observe_request sim_env sim_c6_start)
              = (True, sim_c6_waited)"
    by code_simp+
  show ?thesis
    using h o w C6_position_mode_stops_sensorless_loop [OF h, of "()"] by blast
qed

text \<open>
  Witness for C8: with \<^verbatim>\<open>enable_step_dir\<close> set in the configuration both loops return
  in \<open>sim_c8_enabled\<close>; the first calls are the set-up of the direction pin and the
  subscription, the last is the unsubscription.
\<close>

theorem C8_step_dir_follows_configuration_witness:
  "run_sensorless_control_loop 2 sim_env sim_c8_enabled \<noteq> None
 \<and> run_closed_loop_control_loop 2 sim_env sim_c8_enabled \<noteq> None
 \<and> map_option (enable_step_dir_m \<circ> snd) (run_sensorless_control_loop 2 sim_env sim_c8_enabled)
      = Some False
 \<and> map_option (enable_step_dir_m \<circ> snd) (run_closed_loop_control_loop 2 sim_env sim_c8_enabled)
      = Some False
 \<and> map_option (take 2 \<circ> calls \<circ> snd) (run_closed_loop_control_loop 2 sim_env sim_c8_enabled)
      = Some [GpioInitDir, GpioSubscribe]"
proof -
  have r1: "run_sensorless_control_loop 2 sim_env sim_c8_enabled \<noteq> None"
    and r2: "run_closed_loop_control_loop 2 sim_env sim_c8_enabled \<noteq> None"
    and c: "map_option (take 2 \<circ> calls \<circ> snd)
              (run_closed_loop_control_loop 2 sim_env sim_c8_enabled)
            = Some [GpioInitDir, GpioSubscribe]"
    by code_simp+
  show ?thesis
    using r1 r2 c C8_step_dir_follows_configuration [of 2 sim_env sim_c8_enabled]
    by auto
qed

text \<open>
  Counterexample to C8 as stated. The configuration of \<open>sim_c8_start\<close> has
  \<^verbatim>\<open>enable_step_dir\<close> off. The closed loop runs a full round and returns with success;
  the call at its entry leaves the flag off, and among the calls of the run there is no
  subscription: step/dir input was not enabled at loop entry.
\<close>

theorem C8_step_dir_enabled_at_entry_counterexample:
  "\<not> enable_step_dir (config_m sim_c8_start)
 \<and> \<not> enable_step_dir_m
       (set_step_dir_enabled sim_env (enable_step_dir (config_m sim_c8_start)) sim_c8_start)
 \<and> run_closed_loop_control_loop 2 sim_env sim_c8_start = Some (True, sim_c8_done)
 \<and> calls sim_c8_done =
      [GpioUnsubscribe, SignalWait, SensorlessEstimatorUpdate False, EncoderUpdate True,
       ControllerUpdate, MotorUpdate, GpioUnsubscribe]
 \<and> GpioSubscribe \<notin> set (calls sim_c8_done)"
  by code_simp

end
